theory Spec2Isabelle
  imports Complex_Main "HOL-Library.Multiset" "HOL-Library.Sublist"
begin

section \<open>Strings and paths\<close>

text \<open>
  A Python \<open>str\<close> is modelled by the sequence of its UTF-8 bytes, an Isabelle
  \<open>string\<close>. Every character the two scripts look for (\<open>/\<close>, \<open>.\<close>, the comma, the
  double quote, CR, LF) is ASCII, and no byte of a multi-byte UTF-8 sequence is ASCII, so
  searching, slicing at such a character and concatenating agree on both views.
\<close>

definition endswith :: "string \<Rightarrow> string \<Rightarrow> bool" where
  \<comment> \<open>\<open>s.endswith(suffix)\<close>\<close>
  "endswith s suf =
     (length suf \<le> length s \<and> drop (length s - length suf) s = suf)"

definition os_path_join :: "string \<Rightarrow> string \<Rightarrow> string" where
  \<comment> \<open>\<open>posixpath.join(a, b)\<close> with two arguments\<close>
  "os_path_join a b =
     (if take 1 b = ''/'' \<or> a = [] then b
      else if endswith a ''/'' then a @ b
      else a @ ''/'' @ b)"

section \<open>File Discoverer\<close>

text \<open>
  The directory tree that \<open>os.walk\<close> sees. A directory holds its entries in the order
  \<open>os.scandir\<close> lists them; \<open>os.walk\<close> splits them into the names of the
  sub-directories and the names of everything else, yields the triple for the directory
  itself first (top-down) and then walks each sub-directory in that order.
  A root that cannot be listed (it does not exist, or is not a directory) makes
  \<open>os.walk\<close> yield nothing: its \<open>onerror\<close> is \<open>None\<close>, so the error of
  \<open>scandir\<close> is dropped.
\<close>

datatype node = File string | Dir string "node list"

type_synonym filesystem = "string \<Rightarrow> node list option"

fun dirnames :: "node list \<Rightarrow> string list" where
  "dirnames [] = []"
| "dirnames (File f # es) = dirnames es"
| "dirnames (Dir d sub # es) = d # dirnames es"

fun filenames :: "node list \<Rightarrow> string list" where
  "filenames [] = []"
| "filenames (File f # es) = f # filenames es"
| "filenames (Dir d sub # es) = filenames es"

fun walk_dir :: "string \<Rightarrow> node list \<Rightarrow> (string \<times> string list \<times> string list) list"
  and walk_subdirs :: "string \<Rightarrow> node list \<Rightarrow> (string \<times> string list \<times> string list) list"
where
  "walk_dir tp entries = (tp, dirnames entries, filenames entries) # walk_subdirs tp entries"
| "walk_subdirs tp [] = []"
| "walk_subdirs tp (File f # es) = walk_subdirs tp es"
| "walk_subdirs tp (Dir d sub # es) = walk_dir (os_path_join tp d) sub @ walk_subdirs tp es"

definition os_walk :: "filesystem \<Rightarrow> string \<Rightarrow> (string \<times> string list \<times> string list) list" where
  "os_walk fs tp = (case fs tp of None \<Rightarrow> [] | Some entries \<Rightarrow> walk_dir tp entries)"

definition is_database_name :: "string \<Rightarrow> bool" where
  \<comment> \<open>\<open>file.endswith('.sqlite') or file.endswith('.db')\<close>\<close>
  "is_database_name file = (endswith file ''.sqlite'' \<or> endswith file ''.db'')"


text \<open>\<open>get_database_files\<close> of \<open>analyze_database_table_column.py\<close>: the inner loop over
  \<open>files\<close>, the outer loop over the triples of \<open>os.walk\<close>, both appending to
  \<open>sqlite_files\<close>.\<close>

fun scan_files_column :: "string \<Rightarrow> string list \<Rightarrow> string list \<Rightarrow> string list" where
  "scan_files_column dirpath [] sqlite_files = sqlite_files"
| "scan_files_column dirpath (file # files) sqlite_files =
     scan_files_column dirpath files
       (if endswith file ''.sqlite'' \<or> endswith file ''.db''
        then sqlite_files @ [os_path_join dirpath file] else sqlite_files)"

fun scan_walk_column ::
  "(string \<times> string list \<times> string list) list \<Rightarrow> string list \<Rightarrow> string list" where
  "scan_walk_column [] sqlite_files = sqlite_files"
| "scan_walk_column ((dirpath, dirs, files) # rest) sqlite_files =
     scan_walk_column rest (scan_files_column dirpath files sqlite_files)"

definition get_database_files_column :: "filesystem \<Rightarrow> string \<Rightarrow> string list" where
  "get_database_files_column fs root_dir = scan_walk_column (os_walk fs root_dir) []"

text \<open>\<open>get_database_files\<close> of \<open>analyze_database_tables.py\<close>, translated on its own.\<close>

fun scan_files_tables :: "string \<Rightarrow> string list \<Rightarrow> string list \<Rightarrow> string list" where
  "scan_files_tables dirpath [] sqlite_files = sqlite_files"
| "scan_files_tables dirpath (file # files) sqlite_files =
     scan_files_tables dirpath files
       (if endswith file ''.sqlite'' \<or> endswith file ''.db''
        then sqlite_files @ [os_path_join dirpath file] else sqlite_files)"

fun scan_walk_tables ::
  "(string \<times> string list \<times> string list) list \<Rightarrow> string list \<Rightarrow> string list" where
  "scan_walk_tables [] sqlite_files = sqlite_files"
| "scan_walk_tables ((dirpath, dirs, files) # rest) sqlite_files =
     scan_walk_tables rest (scan_files_tables dirpath files sqlite_files)"

definition get_database_files_tables :: "filesystem \<Rightarrow> string \<Rightarrow> string list" where
  "get_database_files_tables fs root_dir = scan_walk_tables (os_walk fs root_dir) []"

text \<open>
  What a directory tree holds, read off the tree itself and not off the walk: every
  regular file at any depth, once, as its name and its full path.
\<close>

fun tree_files :: "string \<Rightarrow> node list \<Rightarrow> (string \<times> string) list" where
  "tree_files dir [] = []"
| "tree_files dir (File f # es) = (f, os_path_join dir f) # tree_files dir es"
| "tree_files dir (Dir d sub # es) = tree_files (os_path_join dir d) sub @ tree_files dir es"

definition database_files_of :: "string \<Rightarrow> node list \<Rightarrow> (string \<times> string) list" where
  "database_files_of dir entries = filter (\<lambda>(f, p). is_database_name f) (tree_files dir entries)"

definition found_in :: "(string \<times> string list \<times> string list) \<Rightarrow> string list" where
  "found_in w = (case w of (dirpath, dirs, files) \<Rightarrow>
     map (os_path_join dirpath) (filter is_database_name files))"

text \<open>
  A tree as a file system holds it: every name is non-empty and has no \<open>/\<close>, and the
  names of the entries of one directory differ. \<open>rel_files\<close> lists the files of a tree by
  their paths relative to its root.
\<close>

definition valid_name :: "string \<Rightarrow> bool" where
  "valid_name n = (n \<noteq> [] \<and> CHR ''/'' \<notin> set n)"

fun entry_names :: "node list \<Rightarrow> string list" where
  "entry_names [] = []"
| "entry_names (File f # es) = f # entry_names es"
| "entry_names (Dir d sub # es) = d # entry_names es"

fun well_formed :: "node list \<Rightarrow> bool" where
  "well_formed [] = True"
| "well_formed (File f # es) = (valid_name f \<and> f \<notin> set (entry_names es) \<and> well_formed es)"
| "well_formed (Dir d sub # es) =
     (valid_name d \<and> d \<notin> set (entry_names es) \<and> well_formed sub \<and> well_formed es)"

fun rel_files :: "node list \<Rightarrow> string list" where
  "rel_files [] = []"
| "rel_files (File f # es) = f # rel_files es"
| "rel_files (Dir d sub # es) = map (\<lambda>r. d @ ''/'' @ r) (rel_files sub) @ rel_files es"

definition dir_prefix :: "string \<Rightarrow> string" where
  \<comment> \<open>what \<open>os.path.join\<close> puts before a name\<close>
  "dir_prefix dir = (if dir = [] \<or> endswith dir ''/'' then dir else dir @ ''/'')"

definition first_part :: "string \<Rightarrow> string" where
  \<comment> \<open>the first component of a relative path\<close>
  "first_part r = takeWhile (\<lambda>c. c \<noteq> CHR ''/'') r"

text \<open>A small tree for the examples: two levels of sub-directories, three database
  files, one other file, one file whose extension differs in case.\<close>

definition example_fs :: filesystem where
  "example_fs = (\<lambda>p. if p = ''train'' then
       Some [File ''a.db'', Dir ''x'' [File ''b.sqlite'', File ''notes.txt'', Dir ''y'' [File ''.db'']],
             File ''d.DB'']
     else None)"


section \<open>Text the scripts print\<close>

text \<open>
  The messages of the scripts are Chinese; each literal is given by its UTF-8 bytes.
  Standard output is modelled by the list of the texts printed, one entry for each call
  of \<open>print\<close>.
\<close>

definition zh_error_head :: string where
  \<comment> \<open>start of the diagnostic of both inspectors, before the path (the UTF-8
    bytes; code points beyond printable ASCII: U+5904 U+7406 U+6570 U+636E U+5E93)\<close>
  "zh_error_head =
     [CHR 0xE5, CHR 0xA4, CHR 0x84, CHR 0xE7, CHR 0x90, CHR 0x86, CHR 0xE6, CHR 0x95, CHR 0xB0, CHR 0xE6, CHR 0x8D, CHR 0xAE, CHR 0xE5, CHR 0xBA, CHR 0x93] @ '' ''"

definition zh_error_mid :: string where
  \<comment> \<open>in the diagnostic, between the path and the message (the UTF-8 bytes;
    code points beyond printable ASCII: U+65F6 U+51FA U+9519)\<close>
  "zh_error_mid =
     '' '' @ [CHR 0xE6, CHR 0x97, CHR 0xB6, CHR 0xE5, CHR 0x87, CHR 0xBA, CHR 0xE9, CHR 0x94, CHR 0x99] @ '': ''"

definition zh_found :: string where
  \<comment> \<open>start of the line that reports how many files were found (the UTF-8
    bytes; code points beyond printable ASCII: U+53D1 U+73B0)\<close>
  "zh_found =
     [CHR 0xE5, CHR 0x8F, CHR 0x91, CHR 0xE7, CHR 0x8E, CHR 0xB0] @ '' ''"

definition zh_found_tail :: string where
  \<comment> \<open>end of the line that reports how many files were found (the UTF-8 bytes;
    code points beyond printable ASCII: U+4E2A U+6570 U+636E U+5E93 U+6587 U+4EF6)\<close>
  "zh_found_tail =
     '' '' @ [CHR 0xE4, CHR 0xB8, CHR 0xAA, CHR 0xE6, CHR 0x95, CHR 0xB0, CHR 0xE6, CHR 0x8D, CHR 0xAE, CHR 0xE5, CHR 0xBA, CHR 0x93, CHR 0xE6, CHR 0x96, CHR 0x87, CHR 0xE4,
       CHR 0xBB, CHR 0xB6]"

definition zh_processing :: string where
  \<comment> \<open>the notice printed before each file is inspected (the UTF-8 bytes; code
    points beyond printable ASCII: U+000A U+5904 U+7406 U+6570 U+636E U+5E93)\<close>
  "zh_processing =
     [CHR 0x0A, CHR 0xE5, CHR 0xA4, CHR 0x84, CHR 0xE7, CHR 0x90, CHR 0x86, CHR 0xE6, CHR 0x95, CHR 0xB0, CHR 0xE6, CHR 0x8D, CHR 0xAE, CHR 0xE5, CHR 0xBA, CHR 0x93] @ '': ''"

definition zh_database :: string where
  \<comment> \<open>start of the line printed for each table (the UTF-8 bytes; code points
    beyond printable ASCII: U+6570 U+636E U+5E93)\<close>
  "zh_database =
     [CHR 0xE6, CHR 0x95, CHR 0xB0, CHR 0xE6, CHR 0x8D, CHR 0xAE, CHR 0xE5, CHR 0xBA, CHR 0x93] @ '' ''"

definition zh_table :: string where
  \<comment> \<open>in the line printed for each table, before the table name (the UTF-8
    bytes; code points beyond printable ASCII: U+8868)\<close>
  "zh_table =
     '', '' @ [CHR 0xE8, CHR 0xA1, CHR 0xA8] @ '' ''"

definition zh_columns_tail :: string where
  \<comment> \<open>end of the line printed for each table (the UTF-8 bytes; code points
    beyond printable ASCII: U+5217)\<close>
  "zh_columns_tail =
     '' '' @ [CHR 0xE5, CHR 0x88, CHR 0x97]"

definition zh_column_names :: string where
  \<comment> \<open>start of the line that lists the column names of a table (the UTF-8
    bytes; code points beyond printable ASCII: U+5217 U+540D)\<close>
  "zh_column_names =
     [CHR 0xE5, CHR 0x88, CHR 0x97, CHR 0xE5, CHR 0x90, CHR 0x8D] @ '': ''"

definition zh_distribution :: string where
  \<comment> \<open>heading printed by print_distribution (the UTF-8 bytes; code points
    beyond printable ASCII: U+000A U+5217 U+6570 U+5206 U+5E03)\<close>
  "zh_distribution =
     [CHR 0x0A, CHR 0xE5, CHR 0x88, CHR 0x97, CHR 0xE6, CHR 0x95, CHR 0xB0, CHR 0xE5, CHR 0x88, CHR 0x86, CHR 0xE5, CHR 0xB8, CHR 0x83] @ '':''"

definition zh_tables_with :: string where
  \<comment> \<open>middle of each line printed by print_distribution (the UTF-8 bytes; code
    points beyond printable ASCII: U+5217 U+7684 U+8868 U+6570 U+91CF)\<close>
  "zh_tables_with =
     '' '' @ [CHR 0xE5, CHR 0x88, CHR 0x97, CHR 0xE7, CHR 0x9A, CHR 0x84, CHR 0xE8, CHR 0xA1, CHR 0xA8, CHR 0xE6, CHR 0x95, CHR 0xB0, CHR 0xE9, CHR 0x87, CHR 0x8F] @ '': ''"

definition zh_chart_saved :: string where
  \<comment> \<open>last line printed by plot_column_distribution (the UTF-8 bytes; code
    points beyond printable ASCII: U+000A U+5217 U+6570 U+5206 U+5E03 U+56FE U+5DF2 U+4FDD
    U+5B58 U+4E3A)\<close>
  "zh_chart_saved =
     [CHR 0x0A, CHR 0xE5, CHR 0x88, CHR 0x97, CHR 0xE6, CHR 0x95, CHR 0xB0, CHR 0xE5, CHR 0x88, CHR 0x86, CHR 0xE5, CHR 0xB8, CHR 0x83, CHR 0xE5, CHR 0x9B, CHR 0xBE, CHR 0xE5,
       CHR 0xB7, CHR 0xB2, CHR 0xE4, CHR 0xBF, CHR 0x9D, CHR 0xE5, CHR 0xAD, CHR 0x98, CHR 0xE4, CHR 0xB8, CHR 0xBA] @ '' column_distribution.html''"

definition zh_chart_title :: string where
  \<comment> \<open>title of the chart (the UTF-8 bytes; code points beyond printable ASCII:
    U+6570 U+636E U+5E93 U+8868 U+7684 U+5217 U+6570 U+5206 U+5E03)\<close>
  "zh_chart_title =
     [CHR 0xE6, CHR 0x95, CHR 0xB0, CHR 0xE6, CHR 0x8D, CHR 0xAE, CHR 0xE5, CHR 0xBA, CHR 0x93, CHR 0xE8, CHR 0xA1, CHR 0xA8, CHR 0xE7, CHR 0x9A, CHR 0x84, CHR 0xE5, CHR 0x88,
       CHR 0x97, CHR 0xE6, CHR 0x95, CHR 0xB0, CHR 0xE5, CHR 0x88, CHR 0x86, CHR 0xE5, CHR 0xB8, CHR 0x83]"

definition zh_xaxis_title :: string where
  \<comment> \<open>title of the x axis (the UTF-8 bytes; code points beyond printable
    ASCII: U+5217 U+6570)\<close>
  "zh_xaxis_title =
     [CHR 0xE5, CHR 0x88, CHR 0x97, CHR 0xE6, CHR 0x95, CHR 0xB0]"

definition zh_yaxis_title :: string where
  \<comment> \<open>title of the y axis (the UTF-8 bytes; code points beyond printable
    ASCII: U+8868 U+7684 U+6570 U+91CF)\<close>
  "zh_yaxis_title =
     [CHR 0xE8, CHR 0xA1, CHR 0xA8, CHR 0xE7, CHR 0x9A, CHR 0x84, CHR 0xE6, CHR 0x95, CHR 0xB0, CHR 0xE9, CHR 0x87, CHR 0x8F]"


fun str_nat :: "nat \<Rightarrow> string" where
  \<comment> \<open>\<open>str(n)\<close> of a non-negative integer: its decimal digits\<close>
  "str_nat n =
     (if n < 10 then [''0123456789'' ! n] else str_nat (n div 10) @ [''0123456789'' ! (n mod 10)])"


fun str_join :: "string \<Rightarrow> string list \<Rightarrow> string" where
  \<comment> \<open>\<open>sep.join(xs)\<close>\<close>
  "str_join sep [] = []"
| "str_join sep [x] = x"
| "str_join sep (x # y # ys) = x @ sep @ str_join sep (y # ys)"

definition rfind :: "string \<Rightarrow> char \<Rightarrow> int" where
  \<comment> \<open>\<open>p.rfind(c)\<close>: the last index of \<open>c\<close>, or -1\<close>
  "rfind p c =
     (if c \<in> set p then int (length p) - 1 - int (length (takeWhile (\<lambda>x. x \<noteq> c) (rev p)))
      else - 1)"

definition os_path_basename :: "string \<Rightarrow> string" where
  \<comment> \<open>\<open>posixpath.basename\<close>: \<open>i = p.rfind('/') + 1; return p[i:]\<close>\<close>
  "os_path_basename p = drop (nat (rfind p CHR ''/'' + 1)) p"

definition os_path_splitext :: "string \<Rightarrow> string \<times> string" where
  \<comment> \<open>\<open>posixpath.splitext\<close>: split at the last dot of the last component, unless that
      component has only dots before it\<close>
  "os_path_splitext p =
     (let sepIndex = rfind p CHR ''/''; dotIndex = rfind p CHR ''.'' in
      if dotIndex > sepIndex \<and>
         list_ex (\<lambda>c. c \<noteq> CHR ''.'')
           (take (nat (dotIndex - (sepIndex + 1))) (drop (nat (sepIndex + 1)) p))
      then (take (nat dotIndex) p, drop (nat dotIndex) p)
      else (p, []))"

section \<open>Python dictionaries\<close>

text \<open>
  A \<open>dict\<close> keeps its keys in insertion order: an association list without repeated
  keys. Assigning to a key that is present replaces the value in place; a new key goes
  to the end.
\<close>

fun dict_set :: "'k \<Rightarrow> 'v \<Rightarrow> ('k \<times> 'v) list \<Rightarrow> ('k \<times> 'v) list" where
  "dict_set k v [] = [(k, v)]"
| "dict_set k v ((k', v') # d) = (if k' = k then (k, v) # d else (k', v') # dict_set k v d)"

fun dict_get :: "('k \<times> 'v) list \<Rightarrow> 'k \<Rightarrow> 'v option" where
  "dict_get [] k = None"
| "dict_get ((k', v') # d) k = (if k' = k then Some v' else dict_get d k)"


section \<open>Exceptions and SQLite\<close>

text \<open>
  The exceptions that the calls of the scripts can raise; all of them are subclasses of
  \<open>Exception\<close>, which is what the handlers of the two inspectors catch. Each carries the
  message that \<open>str(e)\<close> returns.
\<close>

datatype py_exception =
  SqliteError string | TypeError string | ValueError string | KeyError string | CsvError string

fun str_exception :: "py_exception \<Rightarrow> string" where
  "str_exception (SqliteError m) = m"
| "str_exception (TypeError m) = m"
| "str_exception (ValueError m) = m"
| "str_exception (KeyError m) = m"
| "str_exception (CsvError m) = m"

text \<open>
  A row of \<open>PRAGMA table_info\<close>: (cid, name, type, notnull, dflt_value, pk). The scripts
  read \<open>col[1]\<close>, the name.
\<close>

record pragma_row =
  cid :: int
  cname :: string
  ctype :: string
  notnull :: int
  dflt_value :: "string option"
  pk :: int

text \<open>
  What one database file answers to the calls the scripts make, in the order they make
  them: \<open>sqlite3.connect\<close> raises or gives a connection; the fixed query on
  \<open>sqlite_master\<close> raises or gives the table names (its rows are 1-tuples of text);
  a \<open>PRAGMA table_info\<close> statement, given by its SQL text, raises or gives its rows; a
  \<open>SELECT COUNT(*)\<close> statement, given by its SQL text, raises or gives the first column
  of its rows (none when the statement returns no row); \<open>conn.close()\<close> may raise.
  The table name is pasted into the SQL text unquoted, as the f-strings do.
\<close>

record sqlite_file =
  connect :: "py_exception option"
  select_table_names :: "py_exception + string list"
  pragma_table_info :: "string \<Rightarrow> py_exception + pragma_row list"
  select_count :: "string \<Rightarrow> py_exception + int list"
  close_conn :: "py_exception option"

type_synonym sqlite_world = "string \<Rightarrow> sqlite_file"

definition pragma_sql :: "string \<Rightarrow> string" where
  \<comment> \<open>\<open>f"PRAGMA table_info({table_name})"\<close>\<close>
  "pragma_sql t = ''PRAGMA table_info('' @ t @ '')''"

definition count_sql :: "string \<Rightarrow> string" where
  \<comment> \<open>\<open>f"SELECT COUNT(*) FROM {table_name}"\<close>\<close>
  "count_sql t = ''SELECT COUNT(*) FROM '' @ t"

definition error_line :: "string \<Rightarrow> py_exception \<Rightarrow> string" where
  \<comment> \<open>the text printed by the handler of both inspectors\<close>
  "error_line db_path e = zh_error_head @ db_path @ zh_error_mid @ str_exception e"

section \<open>Schema Inspector of \<open>analyze_database_table_column.py\<close>\<close>

record table_stat =
  stat_columns :: "string list"
  stat_count :: nat

type_synonym table_stats = "(string \<times> table_stat) list"

text \<open>
  The loop over \<open>tables\<close> inside the \<open>try\<close>. \<open>table_stats\<close> is assigned before the
  \<open>try\<close> and updated in place, so what the loop had stored when a statement raises is
  still there afterwards: the loop returns the exception, if any, and the dictionary.
\<close>

fun column_stats_loop ::
  "sqlite_file \<Rightarrow> string list \<Rightarrow> table_stats \<Rightarrow> py_exception option \<times> table_stats" where
  "column_stats_loop db [] table_stats = (None, table_stats)"
| "column_stats_loop db (t # tables) table_stats =
     (case pragma_table_info db (pragma_sql t) of
        Inl e \<Rightarrow> (Some e, table_stats)
      | Inr columns \<Rightarrow>
          column_stats_loop db tables
            (dict_set t \<lparr>stat_columns = map cname columns, stat_count = length columns\<rparr>
               table_stats))"

definition column_stats_try :: "sqlite_file \<Rightarrow> py_exception option \<times> table_stats" where
  \<comment> \<open>the body of the \<open>try\<close>, started with \<open>table_stats = {}\<close>\<close>
  "column_stats_try db =
     (case connect db of
        Some e \<Rightarrow> (Some e, [])
      | None \<Rightarrow>
          (case select_table_names db of
             Inl e \<Rightarrow> (Some e, [])
           | Inr tables \<Rightarrow>
               (case column_stats_loop db tables [] of
                  (Some e, table_stats) \<Rightarrow> (Some e, table_stats)
                | (None, table_stats) \<Rightarrow> (close_conn db, table_stats))))"

text \<open>
  A call either raises or returns, and prints: the result is a sum (\<open>Inl\<close> an exception
  that leaves the function) and the list of texts printed.
\<close>

definition get_column_stats ::
  "sqlite_world \<Rightarrow> string \<Rightarrow> (py_exception + table_stats) \<times> string list" where
  "get_column_stats world db_path =
     (case column_stats_try (world db_path) of
        (Some e, table_stats) \<Rightarrow> (Inr table_stats, [error_line db_path e])
      | (None, table_stats) \<Rightarrow> (Inr table_stats, []))"

section \<open>Schema Inspector of \<open>analyze_database_tables.py\<close>\<close>

record table_info =
  database_name :: string
  table_name :: string
  column_count :: nat
  column_names :: "string list"
  row_count :: int

fun table_info_loop ::
  "sqlite_file \<Rightarrow> string \<Rightarrow> string list \<Rightarrow> table_info list
     \<Rightarrow> py_exception option \<times> table_info list" where
  "table_info_loop db db_name [] tables_info = (None, tables_info)"
| "table_info_loop db db_name (t # tables) tables_info =
     (case pragma_table_info db (pragma_sql t) of
        Inl e \<Rightarrow> (Some e, tables_info)
      | Inr columns \<Rightarrow>
          (case select_count db (count_sql t) of
             Inl e \<Rightarrow> (Some e, tables_info)
           | Inr [] \<Rightarrow>
               \<comment> \<open>\<open>cursor.fetchone()\<close> is \<open>None\<close>, and \<open>None[0]\<close> raises\<close>
               (Some (TypeError ([CHR 0x27] @ ''NoneType'' @ [CHR 0x27] @
                  '' object is not subscriptable'')), tables_info)
           | Inr (n # others) \<Rightarrow>
               table_info_loop db db_name tables
                 (tables_info @
                    [\<lparr>database_name = db_name, table_name = t,
                      column_count = length columns, column_names = map cname columns,
                      row_count = n\<rparr>])))"

definition table_info_try :: "sqlite_file \<Rightarrow> string \<Rightarrow> py_exception option \<times> table_info list" where
  \<comment> \<open>the body of the \<open>try\<close>, started with \<open>tables_info = []\<close>\<close>
  "table_info_try db db_name =
     (case connect db of
        Some e \<Rightarrow> (Some e, [])
      | None \<Rightarrow>
          (case select_table_names db of
             Inl e \<Rightarrow> (Some e, [])
           | Inr tables \<Rightarrow>
               (case table_info_loop db db_name tables [] of
                  (Some e, tables_info) \<Rightarrow> (Some e, tables_info)
                | (None, tables_info) \<Rightarrow> (close_conn db, tables_info))))"

definition get_table_info ::
  "sqlite_world \<Rightarrow> string \<Rightarrow> (py_exception + table_info list) \<times> string list" where
  "get_table_info world db_path =
     (let db_name = fst (os_path_splitext (os_path_basename db_path)) in
      case table_info_try (world db_path) db_name of
        (Some e, tables_info) \<Rightarrow> (Inr tables_info, [error_line db_path e])
      | (None, tables_info) \<Rightarrow> (Inr tables_info, []))"


section \<open>Histogram aggregation and chart of \<open>analyze_database_table_column.py\<close>\<close>

type_synonym column_dist = "(nat \<times> nat) list"

definition increment :: "nat \<Rightarrow> column_dist \<Rightarrow> column_dist" where
  \<comment> \<open>\<open>column_dist[column_count] += 1\<close> on a \<open>defaultdict(int)\<close>\<close>
  "increment n_columns column_dist =
     dict_set n_columns
       ((case dict_get column_dist n_columns of None \<Rightarrow> 0 | Some v \<Rightarrow> v) + 1) column_dist"

text \<open>The loop over \<open>table_stats.items()\<close>: the new histogram and the two lines printed
  for each table.\<close>

fun count_columns :: "string \<Rightarrow> table_stats \<Rightarrow> column_dist \<Rightarrow> column_dist \<times> string list" where
  "count_columns db_name [] column_dist = (column_dist, [])"
| "count_columns db_name ((t, stats) # items) column_dist =
     (let n_columns = stat_count stats;
          (cdist, out) = count_columns db_name items (increment n_columns column_dist)
      in (cdist,
          (zh_database @ db_name @ zh_table @ t @ '': '' @ str_nat n_columns @ zh_columns_tail)
          # (zh_column_names @ str_join '', '' (stat_columns stats))
          # out))"

text \<open>The loop over \<open>db_files\<close>. An exception that left \<open>get_column_stats\<close> would leave
  the loop and the run.\<close>

fun analyze_files ::
  "sqlite_world \<Rightarrow> string list \<Rightarrow> column_dist \<Rightarrow> (py_exception + column_dist) \<times> string list" where
  "analyze_files world [] column_dist = (Inr column_dist, [])"
| "analyze_files world (db_file # db_files) column_dist =
     (let db_name = fst (os_path_splitext (os_path_basename db_file)) in
      case get_column_stats world db_file of
        (Inl e, out1) \<Rightarrow> (Inl e, (zh_processing @ db_file) # out1)
      | (Inr table_stats, out1) \<Rightarrow>
          (let (cdist, out2) = count_columns db_name table_stats column_dist;
               (r, out3) = analyze_files world db_files cdist
           in (r, (zh_processing @ db_file) # out1 @ out2 @ out3)))"

definition analyze_columns ::
  "filesystem \<Rightarrow> sqlite_world \<Rightarrow> string \<Rightarrow> (py_exception + column_dist) \<times> string list" where
  "analyze_columns fs world root_dir =
     (let db_files = get_database_files_column fs root_dir;
          (r, out) = analyze_files world db_files []
      in (r, (zh_found @ str_nat (length db_files) @ zh_found_tail) # out))"

fun lookup_all :: "column_dist \<Rightarrow> nat list \<Rightarrow> py_exception + nat list" where
  \<comment> \<open>\<open>[column_dist[k] for k in x]\<close>\<close>
  "lookup_all column_dist [] = Inr []"
| "lookup_all column_dist (k # ks) =
     (case dict_get column_dist k of
        None \<Rightarrow> Inl (KeyError (str_nat k))
      | Some v \<Rightarrow> (case lookup_all column_dist ks of Inl e \<Rightarrow> Inl e | Inr vs \<Rightarrow> Inr (v # vs)))"

fun py_min :: "nat list \<Rightarrow> py_exception + nat" where
  "py_min [] = Inl (ValueError ''min() arg is an empty sequence'')"
| "py_min (v # vs) = Inr (fold min vs v)"

fun py_max :: "nat list \<Rightarrow> py_exception + nat" where
  "py_max [] = Inl (ValueError ''max() arg is an empty sequence'')"
| "py_max (v # vs) = Inr (fold max vs v)"

text \<open>
  The figure handed to \<open>write_html\<close>: the one bar trace and the layout. The floats
  \<open>min(x) - 0.5\<close> and \<open>max(x) + 0.5\<close> are exact for every count below \<open>2^52\<close> and are
  modelled by rationals.
\<close>

record figure =
  bar_x :: "nat list"
  bar_y :: "nat list"
  bar_text :: "nat list"
  bar_textposition :: string
  title_text :: string
  title_x :: rat
  title_xanchor :: string
  xaxis_title :: string
  yaxis_title :: string
  xaxis_dtick :: nat
  xaxis_tickmode :: string
  xaxis_range :: "rat \<times> rat"
  bargap :: rat

text \<open>
  \<open>plot_column_distribution\<close> returns nothing; its effect is the file written, given here
  as the file name and the figure. The arguments of \<open>update_layout\<close> are evaluated
  before \<open>write_html\<close> is reached, so an exception of \<open>min\<close> or \<open>max\<close> leaves the
  function with no file written and nothing printed.
\<close>

definition plot_column_distribution ::
  "column_dist \<Rightarrow> (py_exception + string \<times> figure) \<times> string list" where
  "plot_column_distribution column_dist =
     (let x = sort (map fst column_dist) in
      case lookup_all column_dist x of
        Inl e \<Rightarrow> (Inl e, [])
      | Inr y \<Rightarrow>
          (case py_min x of
             Inl e \<Rightarrow> (Inl e, [])
           | Inr lo \<Rightarrow>
               (case py_max x of
                  Inl e \<Rightarrow> (Inl e, [])
                | Inr hi \<Rightarrow>
                    (Inr (''column_distribution.html'',
                       \<lparr>bar_x = x, bar_y = y, bar_text = y, bar_textposition = ''auto'',
                        title_text = zh_chart_title, title_x = 1 / 2,
                        title_xanchor = ''center'',
                        xaxis_title = zh_xaxis_title, yaxis_title = zh_yaxis_title,
                        xaxis_dtick = 1, xaxis_tickmode = ''linear'',
                        xaxis_range = (of_nat lo - 1 / 2, of_nat hi + 1 / 2),
                        bargap = 1 / 5\<rparr>),
                     [zh_chart_saved]))))"


fun print_rows :: "column_dist \<Rightarrow> nat list \<Rightarrow> (py_exception + unit) \<times> string list" where
  "print_rows cdist [] = (Inr (), [])"
| "print_rows cdist (k # ks) =
     (case dict_get cdist k of
        None \<Rightarrow> (Inl (KeyError (str_nat k)), [])
      | Some v \<Rightarrow>
          (let (r, out) = print_rows cdist ks
           in (r, (str_nat k @ zh_tables_with @ str_nat v) # out)))"

definition print_distribution :: "column_dist \<Rightarrow> (py_exception + unit) \<times> string list" where
  "print_distribution cdist =
     (let (r, out) = print_rows cdist (sort (map fst cdist))
      in (r, zh_distribution # replicate 40 CHR ''-'' # out))"

definition main_column ::
  "filesystem \<Rightarrow> sqlite_world \<Rightarrow> (py_exception + string \<times> figure) \<times> string list" where
  \<comment> \<open>\<open>main\<close> of \<open>analyze_database_table_column.py\<close>\<close>
  "main_column fs world =
     (let root_dir = ''train'' in
      case analyze_columns fs world root_dir of
        (Inl e, out1) \<Rightarrow> (Inl e, out1)
      | (Inr column_dist, out1) \<Rightarrow>
          (case print_distribution column_dist of
             (Inl e, out2) \<Rightarrow> (Inl e, out1 @ out2)
           | (Inr u, out2) \<Rightarrow>
               (case plot_column_distribution column_dist of
                  (r, out3) \<Rightarrow> (r, out1 @ out2 @ out3))))"


section \<open>Flat aggregation of \<open>analyze_database_tables.py\<close>\<close>

text \<open>The loop of \<open>main\<close> over \<open>db_files\<close>, which extends \<open>all_tables_info\<close> by what
  \<open>get_table_info\<close> returns for each file.\<close>

fun collect_tables_info ::
  "sqlite_world \<Rightarrow> string list \<Rightarrow> table_info list
     \<Rightarrow> (py_exception + table_info list) \<times> string list" where
  "collect_tables_info world [] all_tables_info = (Inr all_tables_info, [])"
| "collect_tables_info world (db_file # db_files) all_tables_info =
     (case get_table_info world db_file of
        (Inl e, out1) \<Rightarrow> (Inl e, (zh_processing @ db_file) # out1)
      | (Inr tables_info, out1) \<Rightarrow>
          (let (r, out2) = collect_tables_info world db_files (all_tables_info @ tables_info)
           in (r, (zh_processing @ db_file) # out1 @ out2)))"

section \<open>CSV Reporter of \<open>analyze_database_tables.py\<close>\<close>














section \<open>Reading a CSV file back\<close>





definition continuation_byte :: "char \<Rightarrow> bool" where
  "continuation_byte c = (128 \<le> (of_char c :: nat) \<and> (of_char c :: nat) < 192)"

definition characters :: "string \<Rightarrow> nat" where
  "characters s = length (filter (\<lambda>c. \<not> continuation_byte c) s)"











section \<open>What the inspectors are compared with\<close>

text \<open>
  Read off the answers of a database file, not off the inspectors: whether one of the
  calls an inspector makes raises; the tables it lists; the entry a readable table
  stands for.
\<close>

definition listed_tables :: "sqlite_file \<Rightarrow> string list" where
  "listed_tables db =
     (case connect db of
        Some e \<Rightarrow> []
      | None \<Rightarrow> (case select_table_names db of Inl e \<Rightarrow> [] | Inr tables \<Rightarrow> tables))"

definition columns_readable :: "sqlite_file \<Rightarrow> string \<Rightarrow> bool" where
  "columns_readable db t = (\<not> isl (pragma_table_info db (pragma_sql t)))"

definition count_readable :: "sqlite_file \<Rightarrow> string \<Rightarrow> bool" where
  "count_readable db t =
     (case select_count db (count_sql t) of Inl e \<Rightarrow> False | Inr [] \<Rightarrow> False | Inr (n # ns) \<Rightarrow> True)"

definition column_calls_raise :: "sqlite_file \<Rightarrow> bool" where
  \<comment> \<open>one of the calls of \<open>get_column_stats\<close> raises\<close>
  "column_calls_raise db =
     (connect db \<noteq> None \<or> isl (select_table_names db) \<or>
      list_ex (\<lambda>t. \<not> columns_readable db t) (listed_tables db) \<or> close_conn db \<noteq> None)"

definition table_calls_raise :: "sqlite_file \<Rightarrow> bool" where
  \<comment> \<open>one of the calls of \<open>get_table_info\<close> raises\<close>
  "table_calls_raise db =
     (connect db \<noteq> None \<or> isl (select_table_names db) \<or>
      list_ex (\<lambda>t. \<not> (columns_readable db t \<and> count_readable db t)) (listed_tables db) \<or>
      close_conn db \<noteq> None)"

definition stat_of :: "sqlite_file \<Rightarrow> string \<Rightarrow> table_stat" where
  "stat_of db t =
     (case pragma_table_info db (pragma_sql t) of
        Inl e \<Rightarrow> \<lparr>stat_columns = [], stat_count = 0\<rparr>
      | Inr columns \<Rightarrow> \<lparr>stat_columns = map cname columns, stat_count = length columns\<rparr>)"

definition info_of :: "sqlite_file \<Rightarrow> string \<Rightarrow> string \<Rightarrow> table_info" where
  "info_of db db_name t =
     \<lparr>database_name = db_name, table_name = t,
      column_count = stat_count (stat_of db t), column_names = stat_columns (stat_of db t),
      row_count = (case select_count db (count_sql t) of Inr (n # ns) \<Rightarrow> n | _ \<Rightarrow> 0)\<rparr>"

fun store_all :: "sqlite_file \<Rightarrow> string list \<Rightarrow> table_stats \<Rightarrow> table_stats" where
  "store_all db [] table_stats = table_stats"
| "store_all db (t # ts) table_stats = store_all db ts (dict_set t (stat_of db t) table_stats)"

definition logical_name :: "string \<Rightarrow> string" where
  "logical_name db_path = fst (os_path_splitext (os_path_basename db_path))"


section \<open>Example databases\<close>

text \<open>
  The scenario of the specification: \<open>alpha\<close> with one table \<open>users\<close> (id, name, email;
  10 rows), \<open>beta\<close> with one table \<open>logs\<close> (id, ts; no row), and a file that is not a
  database, whose first query raises. A fourth file lists a readable table \<open>a\<close> and a
  table \<open>b c\<close>, whose name makes both statements built from it raise.
\<close>

definition col :: "int \<Rightarrow> string \<Rightarrow> string \<Rightarrow> pragma_row" where
  "col i n ty = \<lparr>cid = i, cname = n, ctype = ty, notnull = 0, dflt_value = None, pk = 0\<rparr>"

definition alpha_db :: sqlite_file where
  "alpha_db =
     \<lparr>connect = None,
      select_table_names = Inr [''users''],
      pragma_table_info = (\<lambda>sql. if sql = ''PRAGMA table_info(users)''
         then Inr [col 0 ''id'' ''INTEGER'', col 1 ''name'' ''TEXT'', col 2 ''email'' ''TEXT'']
         else Inr []),
      select_count = (\<lambda>sql. if sql = ''SELECT COUNT(*) FROM users'' then Inr [10]
         else Inl (SqliteError ''no such table'')),
      close_conn = None\<rparr>"

definition beta_db :: sqlite_file where
  "beta_db =
     \<lparr>connect = None,
      select_table_names = Inr [''logs''],
      pragma_table_info = (\<lambda>sql. if sql = ''PRAGMA table_info(logs)''
         then Inr [col 0 ''id'' ''INTEGER'', col 1 ''ts'' ''TEXT'']
         else Inr []),
      select_count = (\<lambda>sql. if sql = ''SELECT COUNT(*) FROM logs'' then Inr [0]
         else Inl (SqliteError ''no such table'')),
      close_conn = None\<rparr>"

definition corrupt_db :: sqlite_file where
  "corrupt_db =
     \<lparr>connect = None,
      select_table_names = Inl (SqliteError ''file is not a database''),
      pragma_table_info = (\<lambda>sql. Inl (SqliteError ''file is not a database'')),
      select_count = (\<lambda>sql. Inl (SqliteError ''file is not a database'')),
      close_conn = None\<rparr>"

definition half_db :: sqlite_file where
  "half_db =
     \<lparr>connect = None,
      select_table_names = Inr [''a'', ''b c''],
      pragma_table_info = (\<lambda>sql. if sql = ''PRAGMA table_info(a)''
         then Inr [col 0 ''x'' ''TEXT'']
         else Inl (SqliteError ''near c: syntax error'')),
      select_count = (\<lambda>sql. if sql = ''SELECT COUNT(*) FROM a'' then Inr [7]
         else Inl (SqliteError ''no such table: b'')),
      close_conn = None\<rparr>"

definition example_world :: sqlite_world where
  "example_world =
     (\<lambda>p. if p = ''train/alpha.db'' then alpha_db
          else if p = ''train/beta.db'' then beta_db
          else if p = ''train/half.db'' then half_db
          else corrupt_db)"


declare str_nat.simps [simp del]



section \<open>What the histogram is compared with\<close>

definition file_counts :: "sqlite_world \<Rightarrow> string \<Rightarrow> nat list" where
  \<comment> \<open>the column counts of the entries that \<open>get_column_stats\<close> returns for a file, in the
      order of the entries\<close>
  "file_counts world db_file =
     (case fst (get_column_stats world db_file) of
        Inl e \<Rightarrow> []
      | Inr table_stats \<Rightarrow> map (\<lambda>(t, stats). stat_count stats) table_stats)"

definition observed_counts :: "sqlite_world \<Rightarrow> string list \<Rightarrow> nat list" where
  \<comment> \<open>the column counts of all tables observed, in the order in which they are processed\<close>
  "observed_counts world db_files = concat (map (file_counts world) db_files)"

definition recorded_tables :: "sqlite_file \<Rightarrow> string list" where
  \<comment> \<open>the listed tables before the first one whose column statement raises, each name once\<close>
  "recorded_tables db = remdups (takeWhile (columns_readable db) (listed_tables db))"

definition inspected_cleanly :: "sqlite_world \<Rightarrow> string list \<Rightarrow> string list" where
  \<comment> \<open>the files on which no call of \<open>get_column_stats\<close> raises\<close>
  "inspected_cleanly world db_files = filter (\<lambda>f. \<not> column_calls_raise (world f)) db_files"

definition half_fs :: filesystem where
  \<comment> \<open>a root directory \<open>train\<close> that holds the one file \<open>half.db\<close>\<close>
  "half_fs = (\<lambda>p. if p = ''train'' then Some [File ''half.db''] else None)"

definition train_fs :: filesystem where
  \<comment> \<open>a root directory \<open>train\<close> with the two databases of the scenario, the file that is
      not a database, and one unrelated file\<close>
  "train_fs =
     (\<lambda>p. if p = ''train''
          then Some [File ''alpha.db'', File ''bad.db'', File ''beta.db'', File ''notes.txt'']
          else None)"



section \<open>Facts about the File Discoverer\<close>

lemma scan_files_column_eq:
  "scan_files_column dirpath files acc =
     acc @ map (os_path_join dirpath) (filter is_database_name files)"
  by (induction files arbitrary: acc) (simp_all add: is_database_name_def)

lemma scan_files_tables_eq:
  "scan_files_tables dirpath files acc =
     acc @ map (os_path_join dirpath) (filter is_database_name files)"
  by (induction files arbitrary: acc) (simp_all add: is_database_name_def)

lemma scan_walk_column_eq:
  "scan_walk_column ws acc = acc @ concat (map found_in ws)"
  by (induction ws acc rule: scan_walk_column.induct)
     (simp_all add: scan_files_column_eq found_in_def)

lemma scan_walk_tables_eq:
  "scan_walk_tables ws acc = acc @ concat (map found_in ws)"
  by (induction ws acc rule: scan_walk_tables.induct)
     (simp_all add: scan_files_tables_eq found_in_def)

lemma found_in_walk_dir:
  "mset (concat (map found_in (walk_dir dir es))) =
     mset (map (os_path_join dir) (filter is_database_name (filenames es)))
     + mset (concat (map found_in (walk_subdirs dir es)))"
  by (simp add: found_in_def)

lemma walk_tree_files:
  "mset (concat (map found_in (walk_dir dir es))) = mset (map snd (database_files_of dir es))"
  "mset (map (os_path_join dir) (filter is_database_name (filenames es)))
     + mset (concat (map found_in (walk_subdirs dir es)))
   = mset (map snd (database_files_of dir es))"
proof (induction dir es and dir es rule: walk_dir_walk_subdirs.induct)
  case (1 tp entries)
  then show ?case by (simp only: found_in_walk_dir)
next
  case (2 tp)
  show ?case by (simp add: database_files_of_def)
next
  case (3 tp f es)
  then show ?case by (simp add: database_files_of_def)
next
  case (4 tp d sub es)
  have "mset (map (os_path_join tp) (filter is_database_name (filenames (Dir d sub # es))))
        + mset (concat (map found_in (walk_subdirs tp (Dir d sub # es))))
      = mset (concat (map found_in (walk_dir (os_path_join tp d) sub)))
        + (mset (map (os_path_join tp) (filter is_database_name (filenames es)))
           + mset (concat (map found_in (walk_subdirs tp es))))"
    by (simp del: walk_dir.simps)
  also have "\<dots> = mset (map snd (database_files_of (os_path_join tp d) sub))
        + mset (map snd (database_files_of tp es))"
    by (simp only: "4.IH")
  also have "\<dots> = mset (map snd (database_files_of tp (Dir d sub # es)))"
    by (simp add: database_files_of_def)
  finally show ?case .
qed

lemma get_database_files_column_mset:
  "fs root_dir = Some entries \<Longrightarrow>
     mset (get_database_files_column fs root_dir) = mset (map snd (database_files_of root_dir entries))"
  by (simp add: get_database_files_column_def os_walk_def scan_walk_column_eq
        walk_tree_files(1) del: walk_dir.simps)

lemma get_database_files_tables_mset:
  "fs root_dir = Some entries \<Longrightarrow>
     mset (get_database_files_tables fs root_dir) = mset (map snd (database_files_of root_dir entries))"
  by (simp add: get_database_files_tables_def os_walk_def scan_walk_tables_eq
        walk_tree_files(1) del: walk_dir.simps)

lemma join_valid: "valid_name n \<Longrightarrow> os_path_join dir n = dir_prefix dir @ n"
  by (cases n) (auto simp: os_path_join_def dir_prefix_def valid_name_def)

lemma endswith_slash: "endswith p ''/'' = (p \<noteq> [] \<and> last p = CHR ''/'')"
proof (cases p rule: rev_cases)
  case Nil
  then show ?thesis by (simp add: endswith_def)
next
  case (snoc ys y)
  then show ?thesis by (simp add: endswith_def)
qed

lemma dir_prefix_append:
  assumes "valid_name d"
  shows "dir_prefix (dir_prefix dir @ d) = dir_prefix dir @ d @ ''/''"
proof -
  from assms have ne: "d \<noteq> []" and "CHR ''/'' \<notin> set d"
    by (simp_all add: valid_name_def)
  then have "last d \<noteq> CHR ''/''"
    by (metis last_in_set)
  with ne have "dir_prefix dir @ d \<noteq> []" and "last (dir_prefix dir @ d) \<noteq> CHR ''/''"
    by simp_all
  then show ?thesis
    by (simp add: dir_prefix_def [of "dir_prefix dir @ d"] endswith_slash)
qed

lemma tree_files_rel:
  "well_formed es \<Longrightarrow> map snd (tree_files dir es) = map (\<lambda>r. dir_prefix dir @ r) (rel_files es)"
  by (induction dir es rule: tree_files.induct) (simp_all add: join_valid dir_prefix_append)

lemma first_part_name: "valid_name n \<Longrightarrow> first_part n = n"
  by (auto simp: first_part_def valid_name_def)

lemma first_part_sub: "valid_name d \<Longrightarrow> first_part (d @ CHR ''/'' # r) = d"
  unfolding first_part_def valid_name_def
  by (subst takeWhile_append2) auto

lemma rel_files_first:
  "well_formed es \<Longrightarrow> r \<in> set (rel_files es) \<Longrightarrow> first_part r \<in> set (entry_names es)"
  by (induction es arbitrary: r rule: rel_files.induct)
     (auto simp: first_part_name first_part_sub)

lemma rel_files_distinct: "well_formed es \<Longrightarrow> distinct (rel_files es)"
proof (induction es rule: rel_files.induct)
  case 1
  show ?case by simp
next
  case (2 f es)
  then have "f \<notin> set (rel_files es)"
    using rel_files_first [of es f] by (auto simp: first_part_name)
  with 2 show ?case by simp
next
  case (3 d sub es)
  then have v: "valid_name d" and new: "d \<notin> set (entry_names es)" by simp_all
  have "distinct (map (\<lambda>r. d @ ''/'' @ r) (rel_files sub))"
    using 3 by (simp add: distinct_map inj_on_def)
  moreover have "set (map (\<lambda>r. d @ ''/'' @ r) (rel_files sub)) \<inter> set (rel_files es) = {}"
  proof (rule ccontr)
    assume "\<not> ?thesis"
    then obtain r where "d @ ''/'' @ r \<in> set (rel_files es)" by auto
    with 3 have "first_part (d @ ''/'' @ r) \<in> set (entry_names es)"
      by (intro rel_files_first) simp_all
    with v new show False by (simp add: first_part_sub)
  qed
  ultimately show ?case using 3 by simp
qed

lemma tree_files_distinct: "well_formed es \<Longrightarrow> distinct (map snd (tree_files dir es))"
  by (simp add: tree_files_rel rel_files_distinct distinct_map inj_on_def)

lemma database_files_distinct:
  "well_formed es \<Longrightarrow> distinct (map snd (database_files_of dir es))"
  unfolding database_files_of_def
  by (rule distinct_map_filter) (rule tree_files_distinct)

text \<open>
  C10. The File Discoverer is written twice, once in each script; the two functions
  return the same list of paths, in the same order, for every file system and every root
  directory.
\<close>

theorem get_database_files_agree:
  "get_database_files_column fs root_dir = get_database_files_tables fs root_dir"
  by (simp add: get_database_files_column_def get_database_files_tables_def
        scan_walk_column_eq scan_walk_tables_eq)

text \<open>
  C6. When the root directory can be listed, the paths returned are, as a multiset, the
  full paths of exactly the regular files of the tree (at any depth) whose name ends in
  \<open>.sqlite\<close> or \<open>.db\<close>: each such file once, no other file; so their number is the
  number N of such files, and in a tree as a file system holds it (names without \<open>/\<close>,
  different within a directory) no path is returned twice. When the root cannot be listed,
  or the tree holds no such file, the result is the empty list and nothing is raised.
\<close>

theorem get_database_files_exact:
  "(fs root_dir = Some entries \<longrightarrow>
      mset (get_database_files_column fs root_dir)
        = mset (map snd (database_files_of root_dir entries)) \<and>
      length (get_database_files_column fs root_dir)
        = length (database_files_of root_dir entries) \<and>
      mset (get_database_files_tables fs root_dir)
        = mset (map snd (database_files_of root_dir entries)) \<and>
      length (get_database_files_tables fs root_dir)
        = length (database_files_of root_dir entries) \<and>
      (database_files_of root_dir entries = [] \<longrightarrow>
         get_database_files_column fs root_dir = [] \<and>
         get_database_files_tables fs root_dir = []) \<and>
      (well_formed entries \<longrightarrow>
         distinct (get_database_files_column fs root_dir) \<and>
         distinct (get_database_files_tables fs root_dir)))
   \<and> (fs root_dir = None \<longrightarrow>
         get_database_files_column fs root_dir = [] \<and>
         get_database_files_tables fs root_dir = [])"
proof (intro conjI impI)
  assume some: "fs root_dir = Some entries"
  show c: "mset (get_database_files_column fs root_dir)
        = mset (map snd (database_files_of root_dir entries))"
    using some by (rule get_database_files_column_mset [of fs root_dir entries])
  show t: "mset (get_database_files_tables fs root_dir)
        = mset (map snd (database_files_of root_dir entries))"
    using some by (rule get_database_files_tables_mset [of fs root_dir entries])
  from c have "size (mset (get_database_files_column fs root_dir))
        = size (mset (map snd (database_files_of root_dir entries)))"
    by (rule arg_cong)
  then show lc: "length (get_database_files_column fs root_dir)
        = length (database_files_of root_dir entries)"
    by simp
  from t have "size (mset (get_database_files_tables fs root_dir))
        = size (mset (map snd (database_files_of root_dir entries)))"
    by (rule arg_cong)
  then show lt: "length (get_database_files_tables fs root_dir)
        = length (database_files_of root_dir entries)"
    by simp
  {
    assume "database_files_of root_dir entries = []"
    with lc lt show "get_database_files_column fs root_dir = []"
      and "get_database_files_tables fs root_dir = []"
      by simp_all
  }
  {
    assume "well_formed entries"
    then have d: "distinct (map snd (database_files_of root_dir entries))"
      by (rule database_files_distinct)
    from c d show "distinct (get_database_files_column fs root_dir)"
      by (metis mset_eq_imp_distinct_iff)
    from t d show "distinct (get_database_files_tables fs root_dir)"
      by (metis mset_eq_imp_distinct_iff)
  }
next
  assume "fs root_dir = None"
  then show "get_database_files_column fs root_dir = []"
    and "get_database_files_tables fs root_dir = []"
    by (simp_all add: get_database_files_column_def get_database_files_tables_def os_walk_def)
qed

theorem get_database_files_exact_witness:
  "example_fs ''train'' =
     Some [File ''a.db'', Dir ''x'' [File ''b.sqlite'', File ''notes.txt'', Dir ''y'' [File ''.db'']],
           File ''d.DB'']
   \<and> length (database_files_of ''train''
         [File ''a.db'', Dir ''x'' [File ''b.sqlite'', File ''notes.txt'', Dir ''y'' [File ''.db'']],
           File ''d.DB'']) = 3
   \<and> well_formed
        [File ''a.db'', Dir ''x'' [File ''b.sqlite'', File ''notes.txt'', Dir ''y'' [File ''.db'']],
           File ''d.DB'']
   \<and> length (get_database_files_column example_fs ''train'') = 3
   \<and> length (get_database_files_tables example_fs ''train'') = 3
   \<and> distinct (get_database_files_column example_fs ''train'')
   \<and> distinct (get_database_files_tables example_fs ''train'')
   \<and> example_fs ''dev'' = None
   \<and> get_database_files_column example_fs ''dev'' = []
   \<and> database_files_of ''docs'' [File ''readme.md'', Dir ''img'' []] = []
   \<and> get_database_files_tables (\<lambda>p. Some [File ''readme.md'', Dir ''img'' []]) ''docs'' = []"
  using get_database_files_exact [of example_fs "''train''"
      "[File ''a.db'', Dir ''x'' [File ''b.sqlite'', File ''notes.txt'', Dir ''y'' [File ''.db'']],
           File ''d.DB'']"]
    get_database_files_exact [of example_fs "''dev''" "[]"]
    get_database_files_exact [of "\<lambda>p. Some [File ''readme.md'', Dir ''img'' []]" "''docs''"
      "[File ''readme.md'', Dir ''img'' []]"]
  by (simp add: example_fs_def database_files_of_def is_database_name_def endswith_def
        os_path_join_def valid_name_def)

section \<open>Facts about the Schema Inspectors\<close>

lemma column_stats_loop_snd:
  "snd (column_stats_loop db tables acc) =
     store_all db (takeWhile (columns_readable db) tables) acc"
  by (induction tables arbitrary: acc)
     (auto simp: columns_readable_def stat_of_def split: sum.splits)

lemma column_stats_loop_fst:
  "(fst (column_stats_loop db tables acc) = None) = list_all (columns_readable db) tables"
  by (induction tables arbitrary: acc)
     (auto simp: columns_readable_def split: sum.splits)

lemma table_info_loop_snd:
  "snd (table_info_loop db n tables acc) =
     acc @ map (info_of db n)
       (takeWhile (\<lambda>t. columns_readable db t \<and> count_readable db t) tables)"
  by (induction tables arbitrary: acc)
     (auto simp: columns_readable_def count_readable_def stat_of_def info_of_def
           split: sum.splits list.splits)

lemma table_info_loop_fst:
  "(fst (table_info_loop db n tables acc) = None) =
     list_all (\<lambda>t. columns_readable db t \<and> count_readable db t) tables"
  by (induction tables arbitrary: acc)
     (auto simp: columns_readable_def count_readable_def split: sum.splits list.splits)

lemma column_stats_try_snd:
  "snd (column_stats_try db) =
     store_all db (takeWhile (columns_readable db) (listed_tables db)) []"
proof (cases "connect db")
  case (Some e)
  then show ?thesis by (simp add: column_stats_try_def listed_tables_def)
next
  case None
  show ?thesis
  proof (cases "select_table_names db")
    case (Inl e)
    with None show ?thesis by (simp add: column_stats_try_def listed_tables_def)
  next
    case (Inr tables)
    obtain r ts where loop: "column_stats_loop db tables [] = (r, ts)"
      by (cases "column_stats_loop db tables []")
    from column_stats_loop_snd [of db tables "[]"] loop
    have "ts = store_all db (takeWhile (columns_readable db) tables) []" by simp
    with None Inr loop show ?thesis
      by (cases r) (simp_all add: column_stats_try_def listed_tables_def)
  qed
qed

lemma column_stats_try_fst:
  "(fst (column_stats_try db) = None) = (\<not> column_calls_raise db)"
proof (cases "connect db")
  case (Some e)
  then show ?thesis by (simp add: column_stats_try_def column_calls_raise_def)
next
  case None
  show ?thesis
  proof (cases "select_table_names db")
    case (Inl e)
    with None show ?thesis by (simp add: column_stats_try_def column_calls_raise_def)
  next
    case (Inr tables)
    obtain r ts where loop: "column_stats_loop db tables [] = (r, ts)"
      by (cases "column_stats_loop db tables []")
    from column_stats_loop_fst [of db tables "[]"] loop
    have "(r = None) = list_all (columns_readable db) tables" by simp
    with None Inr loop show ?thesis
      by (cases r)
         (auto simp: column_stats_try_def column_calls_raise_def listed_tables_def
            list_ex_iff list_all_iff)
  qed
qed

lemma table_info_try_snd:
  "snd (table_info_try db n) =
     map (info_of db n)
       (takeWhile (\<lambda>t. columns_readable db t \<and> count_readable db t) (listed_tables db))"
proof (cases "connect db")
  case (Some e)
  then show ?thesis by (simp add: table_info_try_def listed_tables_def)
next
  case None
  show ?thesis
  proof (cases "select_table_names db")
    case (Inl e)
    with None show ?thesis by (simp add: table_info_try_def listed_tables_def)
  next
    case (Inr tables)
    obtain r ts where loop: "table_info_loop db n tables [] = (r, ts)"
      by (cases "table_info_loop db n tables []")
    from table_info_loop_snd [of db n tables "[]"] loop
    have "ts = map (info_of db n)
       (takeWhile (\<lambda>t. columns_readable db t \<and> count_readable db t) tables)" by simp
    with None Inr loop show ?thesis
      by (cases r) (simp_all add: table_info_try_def listed_tables_def)
  qed
qed

lemma table_info_try_fst:
  "(fst (table_info_try db n) = None) = (\<not> table_calls_raise db)"
proof (cases "connect db")
  case (Some e)
  then show ?thesis by (simp add: table_info_try_def table_calls_raise_def)
next
  case None
  show ?thesis
  proof (cases "select_table_names db")
    case (Inl e)
    with None show ?thesis by (simp add: table_info_try_def table_calls_raise_def)
  next
    case (Inr tables)
    obtain r ts where loop: "table_info_loop db n tables [] = (r, ts)"
      by (cases "table_info_loop db n tables []")
    from table_info_loop_fst [of db n tables "[]"] loop
    have "(r = None) = list_all (\<lambda>t. columns_readable db t \<and> count_readable db t) tables"
      by simp
    with None Inr loop show ?thesis
      by (cases r)
         (auto simp: table_info_try_def table_calls_raise_def listed_tables_def
            list_ex_iff list_all_iff)
  qed
qed

lemma get_column_stats_fst:
  "fst (get_column_stats world db_path) =
     Inr (store_all (world db_path)
            (takeWhile (columns_readable (world db_path)) (listed_tables (world db_path))) [])"
  using column_stats_try_snd [of "world db_path"]
  by (cases "column_stats_try (world db_path)")
     (simp add: get_column_stats_def split: option.splits)

lemma get_table_info_fst:
  "fst (get_table_info world db_path) =
     Inr (map (info_of (world db_path) (logical_name db_path))
            (takeWhile (\<lambda>t. columns_readable (world db_path) t \<and> count_readable (world db_path) t)
               (listed_tables (world db_path))))"
  using table_info_try_snd [of "world db_path" "logical_name db_path"]
  by (cases "table_info_try (world db_path) (logical_name db_path)")
     (simp add: get_table_info_def logical_name_def split: option.splits)

lemma get_column_stats_snd:
  "snd (get_column_stats world db_path) =
     (case fst (column_stats_try (world db_path)) of
        None \<Rightarrow> [] | Some e \<Rightarrow> [error_line db_path e])"
  by (cases "column_stats_try (world db_path)")
     (simp add: get_column_stats_def split: option.splits)

lemma get_table_info_snd:
  "snd (get_table_info world db_path) =
     (case fst (table_info_try (world db_path) (logical_name db_path)) of
        None \<Rightarrow> [] | Some e \<Rightarrow> [error_line db_path e])"
  by (cases "table_info_try (world db_path) (logical_name db_path)")
     (simp add: get_table_info_def logical_name_def split: option.splits)

lemma set_dict_set: "set (dict_set k v d) \<subseteq> insert (k, v) (set d)"
  by (induction d) (auto split: if_splits)

lemma set_store_all:
  "set (store_all db ts acc) \<subseteq> set acc \<union> (\<lambda>t. (t, stat_of db t)) ` set ts"
proof (induction ts arbitrary: acc)
  case Nil
  then show ?case by simp
next
  case (Cons t ts)
  have "set (store_all db (t # ts) acc)
      \<subseteq> set (dict_set t (stat_of db t) acc) \<union> (\<lambda>t. (t, stat_of db t)) ` set ts"
    using Cons.IH [of "dict_set t (stat_of db t) acc"] by simp
  also have "\<dots> \<subseteq> insert (t, stat_of db t) (set acc) \<union> (\<lambda>t. (t, stat_of db t)) ` set ts"
    using set_dict_set [of t "stat_of db t" acc] by blast
  finally show ?case by auto
qed

lemma dict_get_dict_set: "dict_get (dict_set k v d) k' = (if k' = k then Some v else dict_get d k')"
  by (induction d) auto






lemma analyze_files_step:
  "fst (get_column_stats world db_file) = Inr table_stats \<Longrightarrow>
   fst (analyze_files world (db_file # db_files) column_dist) =
     fst (analyze_files world db_files
            (fst (count_columns (logical_name db_file) table_stats column_dist)))"
  by (cases "get_column_stats world db_file")
     (simp add: logical_name_def split: prod.splits)

lemma collect_tables_info_step:
  "fst (get_table_info world db_file) = Inr tables_info \<Longrightarrow>
   fst (collect_tables_info world (db_file # db_files) all_tables_info) =
     fst (collect_tables_info world db_files (all_tables_info @ tables_info))"
  by (cases "get_table_info world db_file") (simp split: prod.splits)

lemma analyze_files_returns: "\<exists>cd. fst (analyze_files world db_files column_dist) = Inr cd"
proof (induction db_files arbitrary: column_dist)
  case Nil
  show ?case by simp
next
  case (Cons f fs)
  from get_column_stats_fst [of world f] obtain ts
    where "fst (get_column_stats world f) = Inr ts" by blast
  from analyze_files_step [OF this] Cons.IH show ?case by simp
qed

lemma collect_tables_info_returns:
  "\<exists>a. fst (collect_tables_info world db_files all_tables_info) = Inr a"
proof (induction db_files arbitrary: all_tables_info)
  case Nil
  show ?case by simp
next
  case (Cons f fs)
  from get_table_info_fst [of world f] obtain ts
    where "fst (get_table_info world f) = Inr ts" by blast
  from collect_tables_info_step [OF this] Cons.IH show ?case by simp
qed

text \<open>
  C1. Both inspectors return for every database file: an exception raised by opening
  the connection, by a query or by closing is caught inside the function. When one of
  its calls raises, the function prints exactly one text, the diagnostic, which contains
  the path of the file and the message; when none raises it prints nothing. The loop of
  the caller goes on with the remaining files and the run over any list of files
  returns.
\<close>

theorem inspectors_catch_every_exception:
  "(\<exists>table_stats. fst (get_column_stats world db_path) = Inr table_stats \<and>
      fst (analyze_files world (db_path # db_files) column_dist) =
        fst (analyze_files world db_files
               (fst (count_columns (logical_name db_path) table_stats column_dist))))
   \<and> (\<exists>tables_info. fst (get_table_info world db_path) = Inr tables_info \<and>
      fst (collect_tables_info world (db_path # db_files) all_tables_info) =
        fst (collect_tables_info world db_files (all_tables_info @ tables_info)))
   \<and> (column_calls_raise (world db_path) \<longrightarrow>
        (\<exists>e. snd (get_column_stats world db_path) =
               [zh_error_head @ db_path @ zh_error_mid @ str_exception e]))
   \<and> (\<not> column_calls_raise (world db_path) \<longrightarrow> snd (get_column_stats world db_path) = [])
   \<and> (table_calls_raise (world db_path) \<longrightarrow>
        (\<exists>e. snd (get_table_info world db_path) =
               [zh_error_head @ db_path @ zh_error_mid @ str_exception e]))
   \<and> (\<not> table_calls_raise (world db_path) \<longrightarrow> snd (get_table_info world db_path) = [])
   \<and> (\<exists>cd. fst (analyze_files world db_files column_dist) = Inr cd)
   \<and> (\<exists>a. fst (collect_tables_info world db_files all_tables_info) = Inr a)"
proof (intro conjI impI)
  from get_column_stats_fst [of world db_path] obtain ts
    where ts: "fst (get_column_stats world db_path) = Inr ts" by blast
  from ts analyze_files_step [OF ts]
  show "\<exists>table_stats. fst (get_column_stats world db_path) = Inr table_stats \<and>
      fst (analyze_files world (db_path # db_files) column_dist) =
        fst (analyze_files world db_files
               (fst (count_columns (logical_name db_path) table_stats column_dist)))"
    by blast
  from get_table_info_fst [of world db_path] obtain ti
    where ti: "fst (get_table_info world db_path) = Inr ti" by blast
  from ti collect_tables_info_step [OF ti]
  show "\<exists>tables_info. fst (get_table_info world db_path) = Inr tables_info \<and>
      fst (collect_tables_info world (db_path # db_files) all_tables_info) =
        fst (collect_tables_info world db_files (all_tables_info @ tables_info))"
    by blast
  show "\<exists>cd. fst (analyze_files world db_files column_dist) = Inr cd"
    by (rule analyze_files_returns)
  show "\<exists>a. fst (collect_tables_info world db_files all_tables_info) = Inr a"
    by (rule collect_tables_info_returns)
next
  assume "column_calls_raise (world db_path)"
  then obtain e where "fst (column_stats_try (world db_path)) = Some e"
    using column_stats_try_fst [of "world db_path"] by (cases "fst (column_stats_try (world db_path))") auto
  then show "\<exists>e. snd (get_column_stats world db_path) =
               [zh_error_head @ db_path @ zh_error_mid @ str_exception e]"
    by (auto simp: get_column_stats_snd error_line_def)
next
  assume "\<not> column_calls_raise (world db_path)"
  then have "fst (column_stats_try (world db_path)) = None"
    by (simp add: column_stats_try_fst)
  then show "snd (get_column_stats world db_path) = []"
    by (simp add: get_column_stats_snd)
next
  assume "table_calls_raise (world db_path)"
  then obtain e where "fst (table_info_try (world db_path) (logical_name db_path)) = Some e"
    using table_info_try_fst [of "world db_path" "logical_name db_path"]
    by (cases "fst (table_info_try (world db_path) (logical_name db_path))") auto
  then show "\<exists>e. snd (get_table_info world db_path) =
               [zh_error_head @ db_path @ zh_error_mid @ str_exception e]"
    by (auto simp: get_table_info_snd error_line_def)
next
  assume "\<not> table_calls_raise (world db_path)"
  then have "fst (table_info_try (world db_path) (logical_name db_path)) = None"
    by (simp add: table_info_try_fst)
  then show "snd (get_table_info world db_path) = []"
    by (simp add: get_table_info_snd)
qed

theorem inspectors_catch_every_exception_witness:
  "column_calls_raise (example_world ''train/bad.db'')
   \<and> table_calls_raise (example_world ''train/bad.db'')
   \<and> snd (get_column_stats example_world ''train/bad.db'') =
        [zh_error_head @ ''train/bad.db'' @ zh_error_mid @ ''file is not a database'']
   \<and> snd (get_table_info example_world ''train/bad.db'') =
        [zh_error_head @ ''train/bad.db'' @ zh_error_mid @ ''file is not a database'']
   \<and> \<not> column_calls_raise (example_world ''train/alpha.db'')
   \<and> \<not> table_calls_raise (example_world ''train/alpha.db'')
   \<and> snd (get_column_stats example_world ''train/alpha.db'') = []
   \<and> snd (get_table_info example_world ''train/alpha.db'') = []
   \<and> fst (analyze_files example_world [''train/bad.db'', ''train/alpha.db''] []) = Inr [(3, 1)]
   \<and> fst (collect_tables_info example_world [''train/bad.db'', ''train/alpha.db''] []) =
        Inr [\<lparr>database_name = ''alpha'', table_name = ''users'', column_count = 3,
               column_names = [''id'', ''name'', ''email''], row_count = 10\<rparr>]"
  using inspectors_catch_every_exception [of example_world "''train/bad.db''"
          "[''train/alpha.db'']" "[]" "[]"]
        inspectors_catch_every_exception [of example_world "''train/alpha.db''" "[]" "[]" "[]"]
  by (simp add: get_column_stats_def column_stats_try_def get_table_info_def table_info_try_def
        example_world_def alpha_db_def corrupt_db_def col_def
        pragma_sql_def count_sql_def os_path_basename_def os_path_splitext_def
        rfind_def Let_def column_calls_raise_def table_calls_raise_def listed_tables_def
        columns_readable_def count_readable_def error_line_def increment_def logical_name_def)

lemma listed_tables_unreadable:
  "connect db \<noteq> None \<or> isl (select_table_names db) \<Longrightarrow> listed_tables db = []"
  by (auto simp: listed_tables_def isl_def split: option.splits)

text \<open>
  C2, as claimed, fails: the file \<open>train/half.db\<close> lists the tables \<open>a\<close> and \<open>b c\<close>;
  the column statement for \<open>b c\<close> raises, the diagnostic is printed, and yet the entry
  of \<open>a\<close>, stored before, is returned by both inspectors and reaches the histogram and
  the flat list.
\<close>

theorem failing_file_contributes_counterexample:
  "column_calls_raise (example_world ''train/half.db'')
   \<and> table_calls_raise (example_world ''train/half.db'')
   \<and> snd (get_column_stats example_world ''train/half.db'') =
        [zh_error_head @ ''train/half.db'' @ zh_error_mid @ ''near c: syntax error'']
   \<and> fst (get_column_stats example_world ''train/half.db'') =
        Inr [(''a'', \<lparr>stat_columns = [''x''], stat_count = 1\<rparr>)]
   \<and> fst (get_table_info example_world ''train/half.db'') =
        Inr [\<lparr>database_name = ''half'', table_name = ''a'', column_count = 1,
               column_names = [''x''], row_count = 7\<rparr>]
   \<and> fst (analyze_files example_world [''train/half.db''] []) = Inr [(1, 1)]
   \<and> fst (collect_tables_info example_world [''train/half.db''] []) =
        Inr [\<lparr>database_name = ''half'', table_name = ''a'', column_count = 1,
               column_names = [''x''], row_count = 7\<rparr>]"
  by (simp add: get_column_stats_def column_stats_try_def get_table_info_def table_info_try_def
        example_world_def half_db_def col_def
        pragma_sql_def count_sql_def os_path_basename_def os_path_splitext_def
        rfind_def Let_def column_calls_raise_def table_calls_raise_def listed_tables_def
        columns_readable_def count_readable_def error_line_def increment_def)

text \<open>
  C2, amended. What an inspector returns for a file is what it stored for the listed
  tables that come before the first table with a statement that raises: those tables
  stay in the result, the failing table and the tables after it are left out. A file
  whose connection or table-listing query raises lists nothing, so it contributes no
  record, and the histogram and the flat list are what they are without that file.
\<close>

theorem failing_file_keeps_earlier_tables:
  "fst (get_column_stats world db_path) =
     Inr (store_all (world db_path)
            (takeWhile (columns_readable (world db_path)) (listed_tables (world db_path))) [])
   \<and> fst (get_table_info world db_path) =
     Inr (map (info_of (world db_path) (logical_name db_path))
            (takeWhile (\<lambda>t. columns_readable (world db_path) t \<and> count_readable (world db_path) t)
               (listed_tables (world db_path))))
   \<and> (connect (world db_path) \<noteq> None \<or> isl (select_table_names (world db_path)) \<longrightarrow>
        fst (get_column_stats world db_path) = Inr [] \<and>
        fst (get_table_info world db_path) = Inr [] \<and>
        fst (analyze_files world (db_path # db_files) column_dist) =
          fst (analyze_files world db_files column_dist) \<and>
        fst (collect_tables_info world (db_path # db_files) all_tables_info) =
          fst (collect_tables_info world db_files all_tables_info))"
proof (intro conjI impI)
  show "fst (get_column_stats world db_path) =
     Inr (store_all (world db_path)
            (takeWhile (columns_readable (world db_path)) (listed_tables (world db_path))) [])"
    by (rule get_column_stats_fst)
  show "fst (get_table_info world db_path) =
     Inr (map (info_of (world db_path) (logical_name db_path))
            (takeWhile (\<lambda>t. columns_readable (world db_path) t \<and> count_readable (world db_path) t)
               (listed_tables (world db_path))))"
    by (rule get_table_info_fst)
next
  assume "connect (world db_path) \<noteq> None \<or> isl (select_table_names (world db_path))"
  then have none: "listed_tables (world db_path) = []"
    by (rule listed_tables_unreadable)
  then show c: "fst (get_column_stats world db_path) = Inr []"
    by (simp add: get_column_stats_fst)
  from none show t: "fst (get_table_info world db_path) = Inr []"
    by (simp add: get_table_info_fst)
  from analyze_files_step [OF c]
  show "fst (analyze_files world (db_path # db_files) column_dist) =
          fst (analyze_files world db_files column_dist)"
    by simp
  from collect_tables_info_step [OF t]
  show "fst (collect_tables_info world (db_path # db_files) all_tables_info) =
          fst (collect_tables_info world db_files all_tables_info)"
    by simp
qed

theorem failing_file_keeps_earlier_tables_witness:
  "isl (select_table_names (example_world ''train/bad.db''))
   \<and> fst (get_column_stats example_world ''train/bad.db'') = Inr []
   \<and> fst (get_table_info example_world ''train/bad.db'') = Inr []
   \<and> fst (analyze_files example_world [''train/bad.db'', ''train/beta.db''] [(3, 1)]) =
       fst (analyze_files example_world [''train/beta.db''] [(3, 1)])
   \<and> fst (analyze_files example_world [''train/beta.db''] [(3, 1)]) = Inr [(3, 1), (2, 1)]
   \<and> fst (collect_tables_info example_world [''train/bad.db'', ''train/beta.db''] []) =
       fst (collect_tables_info example_world [''train/beta.db''] [])
   \<and> takeWhile (columns_readable (example_world ''train/half.db''))
        (listed_tables (example_world ''train/half.db'')) = [''a'']
   \<and> fst (get_column_stats example_world ''train/half.db'') =
        Inr [(''a'', \<lparr>stat_columns = [''x''], stat_count = 1\<rparr>)]"
  using failing_file_keeps_earlier_tables [of example_world "''train/bad.db''"
          "[''train/beta.db'']" "[(3, 1)]" "[]"]
        failing_file_keeps_earlier_tables [of example_world "''train/half.db''" "[]" "[]" "[]"]
  by (simp add: get_column_stats_def column_stats_try_def get_table_info_def table_info_try_def
        example_world_def half_db_def corrupt_db_def beta_db_def col_def
        pragma_sql_def count_sql_def os_path_basename_def os_path_splitext_def
        rfind_def Let_def listed_tables_def stat_of_def
        columns_readable_def count_readable_def error_line_def increment_def)

section \<open>Facts about the histogram\<close>

lemma dict_get_increment:
  "dict_get (increment c d) k =
     (if k = c then Some ((case dict_get d c of None \<Rightarrow> 0 | Some v \<Rightarrow> v) + 1) else dict_get d k)"
  by (simp add: increment_def dict_get_dict_set)

lemma map_fst_dict_set:
  "map fst (dict_set k v d) = (if k \<in> fst ` set d then map fst d else map fst d @ [k])"
  by (induction d) force+

lemma keys_dict_set: "set (map fst (dict_set k v d)) = insert k (set (map fst d))"
  by (auto simp: map_fst_dict_set)

lemma distinct_dict_set: "distinct (map fst d) \<Longrightarrow> distinct (map fst (dict_set k v d))"
  by (auto simp: map_fst_dict_set)

lemma dict_get_None_iff: "(dict_get d k = None) = (k \<notin> set (map fst d))"
  by (induction d) (auto split: if_splits)

lemma sum_dict_set:
  "sum_list (map snd (dict_set k v d)) + (case dict_get d k of None \<Rightarrow> 0 | Some w \<Rightarrow> w)
     = sum_list (map snd d) + (v::nat)"
  by (induction d) (auto split: option.splits)

lemma sum_increment: "sum_list (map snd (increment c d)) = sum_list (map snd d) + 1"
  using sum_dict_set [of c "(case dict_get d c of None \<Rightarrow> 0 | Some v \<Rightarrow> v) + 1" d]
  by (simp add: increment_def split: option.splits)

lemma keys_increment: "set (map fst (increment c d)) = insert c (set (map fst d))"
  by (simp add: increment_def keys_dict_set del: set_map)

lemma distinct_increment: "distinct (map fst d) \<Longrightarrow> distinct (map fst (increment c d))"
  by (simp add: increment_def distinct_dict_set)

lemma fold_increment_get:
  "dict_get (fold increment cs d) k =
     (if k \<in> set cs
      then Some ((case dict_get d k of None \<Rightarrow> 0 | Some v \<Rightarrow> v) + count (mset cs) k)
      else dict_get d k)"
  by (induction cs arbitrary: d) (auto simp: dict_get_increment)

lemma fold_increment_sum:
  "sum_list (map snd (fold increment cs d)) = sum_list (map snd d) + length cs"
  by (induction cs arbitrary: d) (auto simp: sum_increment)

lemma fold_increment_keys:
  "set (map fst (fold increment cs d)) = set (map fst d) \<union> set cs"
  by (induction cs arbitrary: d) (auto simp: keys_increment simp del: set_map)

lemma fold_increment_distinct:
  "distinct (map fst d) \<Longrightarrow> distinct (map fst (fold increment cs d))"
  by (induction cs arbitrary: d) (auto simp: distinct_increment)

lemma count_columns_fst:
  "fst (count_columns n items d) = fold increment (map (\<lambda>(t, stats). stat_count stats) items) d"
  by (induction n items d rule: count_columns.induct) (auto simp: Let_def split: prod.splits)

lemma analyze_files_fst:
  "fst (analyze_files world db_files d) = Inr (fold increment (observed_counts world db_files) d)"
proof (induction db_files arbitrary: d)
  case Nil
  show ?case by (simp add: observed_counts_def)
next
  case (Cons f fs)
  from get_column_stats_fst [of world f] obtain ts
    where ts: "fst (get_column_stats world f) = Inr ts" by blast
  then have "file_counts world f = map (\<lambda>(t, stats). stat_count stats) ts"
    by (simp add: file_counts_def)
  with analyze_files_step [OF ts, of fs d] Cons.IH show ?case
    by (simp add: count_columns_fst observed_counts_def)
qed








lemma store_all_keys:
  "set (map fst (store_all db ts acc)) = set (map fst acc) \<union> set ts"
  by (induction ts arbitrary: acc) (auto simp: keys_dict_set simp del: set_map)

lemma store_all_distinct:
  "distinct (map fst acc) \<Longrightarrow> distinct (map fst (store_all db ts acc))"
  by (induction ts arbitrary: acc) (auto simp: distinct_dict_set)

lemma store_all_entries:
  "store_all db ts [] = map (\<lambda>t. (t, stat_of db t)) (map fst (store_all db ts []))"
proof -
  have "\<forall>p \<in> set (store_all db ts []). p = (fst p, stat_of db (fst p))"
    using set_store_all [of db ts "[]"] by auto
  then have "map (\<lambda>p. (fst p, stat_of db (fst p))) (store_all db ts []) = store_all db ts []"
    by (simp add: map_idI)
  then show ?thesis by (simp add: comp_def)
qed

lemma store_all_mset:
  "mset (map fst (store_all db ts [])) = mset (remdups ts)"
proof -
  have "distinct (map fst (store_all db ts []))" by (simp add: store_all_distinct)
  moreover have "set (map fst (store_all db ts [])) = set (remdups ts)"
    by (simp add: store_all_keys del: set_map)
  ultimately show ?thesis
    using set_eq_iff_mset_eq_distinct [of "map fst (store_all db ts [])" "remdups ts"]
    by blast
qed

lemma file_counts_mset:
  "mset (file_counts world f)
     = mset (map (\<lambda>t. stat_count (stat_of (world f) t)) (recorded_tables (world f)))"
proof -
  let ?ts = "takeWhile (columns_readable (world f)) (listed_tables (world f))"
  let ?d = "store_all (world f) ?ts []"
  have "file_counts world f = map (\<lambda>(t, stats). stat_count stats) ?d"
    by (simp add: file_counts_def get_column_stats_fst)
  also have "\<dots> = map (\<lambda>(t, stats). stat_count stats)
      (map (\<lambda>t. (t, stat_of (world f) t)) (map fst ?d))"
    using store_all_entries [of "world f" ?ts] by simp
  also have "\<dots> = map (\<lambda>t. stat_count (stat_of (world f) t)) (map fst ?d)"
    by (simp add: comp_def)
  finally have "mset (file_counts world f)
      = image_mset (\<lambda>t. stat_count (stat_of (world f) t)) (mset (map fst ?d))"
    by (simp only: mset_map)
  also have "mset (map fst ?d) = mset (recorded_tables (world f))"
    unfolding recorded_tables_def by (rule store_all_mset)
  finally show ?thesis
    by (simp only: mset_map)
qed

lemma length_file_counts: "length (file_counts world f) = length (recorded_tables (world f))"
  using arg_cong [OF file_counts_mset [of world f], of size] by simp

lemma length_observed_counts:
  "length (observed_counts world db_files)
     = sum_list (map (\<lambda>f. length (recorded_tables (world f))) db_files)"
  by (induction db_files) (simp_all add: observed_counts_def length_file_counts)

lemma recorded_tables_clean:
  "\<not> column_calls_raise db \<Longrightarrow> recorded_tables db = remdups (listed_tables db)"
proof -
  assume "\<not> column_calls_raise db"
  then have "\<forall>t \<in> set (listed_tables db). columns_readable db t"
    by (simp add: column_calls_raise_def list_ex_iff)
  then have "takeWhile (columns_readable db) (listed_tables db) = listed_tables db"
    by (simp only: takeWhile_eq_all_conv)
  then show ?thesis by (simp only: recorded_tables_def)
qed

lemma analyze_columns_fst:
  "fst (analyze_columns fs world root_dir)
     = Inr (fold increment (observed_counts world (get_database_files_column fs root_dir)) [])"
  using analyze_files_fst [of world "get_database_files_column fs root_dir" "[]"]
  by (cases "analyze_files world (get_database_files_column fs root_dir) []")
     (simp add: analyze_columns_def Let_def)

lemma clean_sum:
  assumes "\<forall>f \<in> set db_files. distinct (listed_tables (world f)) \<and>
             (column_calls_raise (world f) \<longrightarrow> recorded_tables (world f) = [])"
  shows "sum_list (map (\<lambda>f. length (recorded_tables (world f))) db_files)
     = sum_list (map (\<lambda>f. length (listed_tables (world f))) (inspected_cleanly world db_files))"
proof -
  have "sum_list (map (\<lambda>f. length (recorded_tables (world f)))
          (filter (\<lambda>f. \<not> column_calls_raise (world f)) db_files))
      = sum_list (map (\<lambda>f. length (recorded_tables (world f))) db_files)"
    using assms by (intro sum_list_map_filter) auto
  moreover have "map (\<lambda>f. length (recorded_tables (world f)))
          (filter (\<lambda>f. \<not> column_calls_raise (world f)) db_files)
      = map (\<lambda>f. length (listed_tables (world f)))
          (filter (\<lambda>f. \<not> column_calls_raise (world f)) db_files)"
    using assms by (intro map_cong) (auto simp: recorded_tables_clean)
  ultimately show ?thesis by (simp add: inspected_cleanly_def)
qed

text \<open>
  C3, as claimed, fails: in the root directory \<open>train\<close> that holds only \<open>half.db\<close>, no
  database is inspected without an error, so the tables of the successfully inspected
  databases number 0; yet the histogram is \<open>{1: 1}\<close>, whose values sum up to 1, because
  the table stored before the failing statement is counted.
\<close>

theorem histogram_sum_counterexample:
  "get_database_files_column half_fs ''train'' = [''train/half.db'']
   \<and> fst (analyze_columns half_fs example_world ''train'') = Inr [(1, 1)]
   \<and> sum_list (map snd [(1 :: nat, 1 :: nat)]) = 1
   \<and> inspected_cleanly example_world [''train/half.db''] = []
   \<and> sum_list (map (\<lambda>f. length (listed_tables (example_world f)))
        (inspected_cleanly example_world (get_database_files_column half_fs ''train''))) = 0"
  by (simp add: analyze_columns_def get_database_files_column_def os_walk_def half_fs_def
        os_path_join_def endswith_def inspected_cleanly_def column_calls_raise_def
        get_column_stats_def column_stats_try_def
        example_world_def half_db_def col_def
        pragma_sql_def os_path_basename_def os_path_splitext_def
        rfind_def Let_def listed_tables_def columns_readable_def increment_def)

text \<open>
  C3, amended. \<open>analyze_columns\<close> returns a dictionary whose values sum up to the number
  of tables observed, that is, of entries returned by the inspector over all the files
  discovered: for each file, the listed tables (each name once) before the first one whose
  column statement raises. Its keys are exactly the column counts observed, and the value
  at a key is the number of observed tables with that column count. When table names are
  unique within each file and no failing file had stored a table, the sum is the number of
  tables of the files inspected without an error, as claimed.
\<close>

theorem histogram_counts_recorded_tables:
  "\<exists>cdist. fst (analyze_columns fs world root_dir) = Inr cdist
     \<and> distinct (map fst cdist)
     \<and> sum_list (map snd cdist)
         = length (observed_counts world (get_database_files_column fs root_dir))
     \<and> sum_list (map snd cdist)
         = sum_list (map (\<lambda>f. length (recorded_tables (world f)))
             (get_database_files_column fs root_dir))
     \<and> set (map fst cdist) = set (observed_counts world (get_database_files_column fs root_dir))
     \<and> (\<forall>k. dict_get cdist k =
           (if k \<in> set (observed_counts world (get_database_files_column fs root_dir))
            then Some (count_list (observed_counts world (get_database_files_column fs root_dir)) k)
            else None))
     \<and> ((\<forall>f \<in> set (get_database_files_column fs root_dir).
            distinct (listed_tables (world f)) \<and>
            (column_calls_raise (world f) \<longrightarrow> recorded_tables (world f) = [])) \<longrightarrow>
          sum_list (map snd cdist)
            = sum_list (map (\<lambda>f. length (listed_tables (world f)))
                (inspected_cleanly world (get_database_files_column fs root_dir))))"
proof -
  let ?files = "get_database_files_column fs root_dir"
  let ?cs = "observed_counts world ?files"
  let ?h = "fold increment ?cs []"
  have 1: "fst (analyze_columns fs world root_dir) = Inr ?h"
    by (rule analyze_columns_fst)
  have 2: "distinct (map fst ?h)"
    by (simp add: fold_increment_distinct)
  have 3: "sum_list (map snd ?h) = length ?cs"
    by (simp add: fold_increment_sum)
  have 4: "sum_list (map snd ?h) = sum_list (map (\<lambda>f. length (recorded_tables (world f))) ?files)"
    by (simp only: 3 length_observed_counts)
  have 5: "set (map fst ?h) = set ?cs"
    by (simp add: fold_increment_keys del: set_map)
  have 6: "\<forall>k. dict_get ?h k = (if k \<in> set ?cs then Some (count_list ?cs k) else None)"
    by (simp add: fold_increment_get count_mset)
  have 7: "(\<forall>f \<in> set ?files. distinct (listed_tables (world f)) \<and>
            (column_calls_raise (world f) \<longrightarrow> recorded_tables (world f) = [])) \<longrightarrow>
          sum_list (map snd ?h)
            = sum_list (map (\<lambda>f. length (listed_tables (world f)))
                (inspected_cleanly world ?files))"
    using clean_sum [of ?files world] by (simp only: 4) blast
  from 1 2 3 4 5 6 7 show ?thesis by blast
qed

theorem histogram_counts_recorded_tables_witness:
  "get_database_files_column train_fs ''train''
     = [''train/alpha.db'', ''train/bad.db'', ''train/beta.db'']
   \<and> distinct (listed_tables (example_world ''train/alpha.db''))
   \<and> distinct (listed_tables (example_world ''train/bad.db''))
   \<and> distinct (listed_tables (example_world ''train/beta.db''))
   \<and> \<not> column_calls_raise (example_world ''train/alpha.db'')
   \<and> \<not> column_calls_raise (example_world ''train/beta.db'')
   \<and> recorded_tables (example_world ''train/bad.db'') = []
   \<and> observed_counts example_world [''train/alpha.db'', ''train/bad.db'', ''train/beta.db'']
       = [3, 2]
   \<and> fst (analyze_columns train_fs example_world ''train'') = Inr [(3, 1), (2, 1)]
   \<and> sum_list (map snd [(3 :: nat, 1 :: nat), (2, 1)]) = 2
   \<and> sum_list (map (\<lambda>f. length (listed_tables (example_world f)))
        (inspected_cleanly example_world
           [''train/alpha.db'', ''train/bad.db'', ''train/beta.db''])) = 2"
  using histogram_counts_recorded_tables [of train_fs example_world "''train''"]
  by (simp add: analyze_columns_def get_database_files_column_def os_walk_def train_fs_def
        os_path_join_def endswith_def inspected_cleanly_def column_calls_raise_def
        get_column_stats_def column_stats_try_def recorded_tables_def
        observed_counts_def file_counts_def
        example_world_def alpha_db_def beta_db_def corrupt_db_def col_def
        pragma_sql_def os_path_basename_def os_path_splitext_def
        rfind_def Let_def listed_tables_def columns_readable_def increment_def)

section \<open>Facts about the chart\<close>

lemma lookup_all_keys:
  "set ks \<subseteq> fst ` set d \<Longrightarrow> \<exists>y. lookup_all d ks = Inr y \<and> map Some y = map (dict_get d) ks"
proof (induction ks)
  case Nil
  show ?case by simp
next
  case (Cons k ks)
  then obtain y where y: "lookup_all d ks = Inr y" "map Some y = map (dict_get d) ks" by auto
  from Cons.prems have "k \<in> set (map fst d)" by simp
  then obtain v where "dict_get d k = Some v"
    using dict_get_None_iff [of d k] by (cases "dict_get d k") auto
  with y show ?case by simp
qed

lemma print_rows_keys:
  "set ks \<subseteq> fst ` set d \<Longrightarrow> fst (print_rows d ks) = Inr ()"
proof (induction ks)
  case Nil
  show ?case by simp
next
  case (Cons k ks)
  from Cons.prems have "k \<in> set (map fst d)" by simp
  then obtain v where "dict_get d k = Some v"
    using dict_get_None_iff [of d k] by (cases "dict_get d k") auto
  with Cons show ?case by (cases "print_rows d ks") simp
qed

lemma print_distribution_returns: "fst (print_distribution d) = Inr ()"
  using print_rows_keys [of "sort (map fst d)" d]
  by (cases "print_rows d (sort (map fst d))") (simp add: print_distribution_def)

lemma py_min_Min: "x \<noteq> [] \<Longrightarrow> py_min x = Inr (Min (set x))"
proof (cases x)
  case Nil
  assume "x \<noteq> []"
  with Nil show ?thesis by simp
next
  case (Cons v vs)
  with Min.set_eq_fold [of v vs] show ?thesis by simp
qed

lemma py_max_Max: "x \<noteq> [] \<Longrightarrow> py_max x = Inr (Max (set x))"
proof (cases x)
  case Nil
  assume "x \<noteq> []"
  with Nil show ?thesis by simp
next
  case (Cons v vs)
  with Max.set_eq_fold [of v vs] show ?thesis by simp
qed



lemma plot_nonempty:
  assumes "column_dist \<noteq> []"
  shows "\<exists>y. map Some y = map (dict_get column_dist) (sort (map fst column_dist)) \<and>
    plot_column_distribution column_dist =
      (Inr (''column_distribution.html'',
         \<lparr>bar_x = sort (map fst column_dist), bar_y = y, bar_text = y,
          bar_textposition = ''auto'',
          title_text = zh_chart_title, title_x = 1 / 2, title_xanchor = ''center'',
          xaxis_title = zh_xaxis_title, yaxis_title = zh_yaxis_title,
          xaxis_dtick = 1, xaxis_tickmode = ''linear'',
          xaxis_range = (of_nat (Min (fst ` set column_dist)) - 1 / 2,
                         of_nat (Max (fst ` set column_dist)) + 1 / 2),
          bargap = 1 / 5\<rparr>),
       [zh_chart_saved])"
proof -
  let ?x = "sort (map fst column_dist)"
  from lookup_all_keys [of ?x column_dist] obtain y
    where y: "lookup_all column_dist ?x = Inr y" "map Some y = map (dict_get column_dist) ?x"
    by auto
  from assms have ne: "?x \<noteq> []"
    by (metis length_sort length_map length_0_conv)
  have "py_min ?x = Inr (Min (fst ` set column_dist))"
    using py_min_Min [OF ne] by simp
  moreover have "py_max ?x = Inr (Max (fst ` set column_dist))"
    using py_max_Max [OF ne] by simp
  ultimately show ?thesis
    using y by (simp add: plot_column_distribution_def)
qed

lemma plot_empty:
  "plot_column_distribution [] = (Inl (ValueError ''min() arg is an empty sequence''), [])"
  by (simp add: plot_column_distribution_def)

lemma fold_increment_Nil_iff: "(fold increment cs [] = []) = (cs = [])"
proof
  assume "fold increment cs [] = []"
  then have "set (map fst (fold increment cs [])) = {}" by simp
  then show "cs = []" by (simp add: fold_increment_keys del: set_map)
qed simp

lemma main_column_fst:
  "fst (main_column fs world) =
     fst (plot_column_distribution
            (fold increment (observed_counts world (get_database_files_column fs ''train'')) []))"
proof -
  let ?h = "fold increment (observed_counts world (get_database_files_column fs ''train'')) []"
  obtain out1 where a: "analyze_columns fs world ''train'' = (Inr ?h, out1)"
    using analyze_columns_fst [of fs world "''train''"]
    by (cases "analyze_columns fs world ''train''") simp
  obtain out2 where p: "print_distribution ?h = (Inr (), out2)"
    using print_distribution_returns [of ?h] by (cases "print_distribution ?h") simp
  show ?thesis
    by (cases "plot_column_distribution ?h") (simp add: main_column_def a p)
qed

text \<open>
  C9. \<open>plot_column_distribution\<close> raises \<open>ValueError\<close> on the empty dictionary (from
  \<open>min\<close> of no keys; no file is written, nothing is printed) and returns, with the chart
  file written, on every other dictionary. The run of \<open>main\<close> therefore ends with that
  exception exactly when no table was observed under \<open>train\<close> (no database file, or no
  table in any), and completes otherwise.
\<close>

theorem plot_fails_exactly_on_empty:
  "(\<exists>m. plot_column_distribution [] = (Inl (ValueError m), []))
   \<and> (column_dist \<noteq> [] \<longrightarrow>
        (\<exists>fig. fst (plot_column_distribution column_dist) = Inr (''column_distribution.html'', fig)))
   \<and> (observed_counts world (get_database_files_column fs ''train'') = [] \<longrightarrow>
        (\<exists>m. fst (main_column fs world) = Inl (ValueError m)))
   \<and> (observed_counts world (get_database_files_column fs ''train'') \<noteq> [] \<longrightarrow>
        (\<exists>fig. fst (main_column fs world) = Inr (''column_distribution.html'', fig)))"
proof (intro conjI impI)
  show "\<exists>m. plot_column_distribution [] = (Inl (ValueError m), [])"
    by (simp add: plot_empty)
next
  assume "column_dist \<noteq> []"
  from plot_nonempty [OF this]
  show "\<exists>fig. fst (plot_column_distribution column_dist) = Inr (''column_distribution.html'', fig)"
    by auto
next
  assume "observed_counts world (get_database_files_column fs ''train'') = []"
  then show "\<exists>m. fst (main_column fs world) = Inl (ValueError m)"
    by (simp add: main_column_fst plot_empty)
next
  assume "observed_counts world (get_database_files_column fs ''train'') \<noteq> []"
  then have "fold increment (observed_counts world (get_database_files_column fs ''train'')) [] \<noteq> []"
    by (simp add: fold_increment_Nil_iff)
  from plot_nonempty [OF this]
  show "\<exists>fig. fst (main_column fs world) = Inr (''column_distribution.html'', fig)"
    by (auto simp: main_column_fst)
qed

theorem plot_fails_exactly_on_empty_witness:
  "[(3 :: nat, 2 :: nat), (5, 1)] \<noteq> []
   \<and> (\<exists>fig. fst (plot_column_distribution [(3, 2), (5, 1)])
          = Inr (''column_distribution.html'', fig))
   \<and> observed_counts example_world (get_database_files_column (\<lambda>p. None) ''train'') = []
   \<and> (\<exists>m. fst (main_column (\<lambda>p. None) example_world) = Inl (ValueError m))
   \<and> observed_counts example_world (get_database_files_column train_fs ''train'') = [3, 2]
   \<and> (\<exists>fig. fst (main_column train_fs example_world) = Inr (''column_distribution.html'', fig))"
proof -
  have a: "observed_counts example_world (get_database_files_column (\<lambda>p. None) ''train'') = []"
    by (simp add: observed_counts_def get_database_files_column_def os_walk_def)
  have b: "observed_counts example_world (get_database_files_column train_fs ''train'') = [3, 2]"
    by (simp add: get_database_files_column_def os_walk_def train_fs_def
        os_path_join_def endswith_def get_column_stats_def column_stats_try_def
        observed_counts_def file_counts_def
        example_world_def alpha_db_def beta_db_def corrupt_db_def col_def pragma_sql_def)
  from plot_fails_exactly_on_empty [of "[(3, 2), (5, 1)]" example_world "\<lambda>p. None"]
       plot_fails_exactly_on_empty [of "[(3, 2), (5, 1)]" example_world train_fs]
  show ?thesis
    by (simp add: a b)
qed









section \<open>Facts about the CSV report\<close>



lemma characters_append: "characters (a @ b) = characters a + characters b"
  by (simp add: characters_def)

lemma characters_snoc:
  "characters (f @ [c]) = (if continuation_byte c then characters f else Suc (characters f))"
  by (simp add: characters_def)












































end
